theory Spec2Isabelle
  imports Main
begin

section \<open>formatRelative: the data model\<close>

text \<open>
  The development embeds \<^verbatim>\<open>src/formatRelative/index.ts\<close>. The function is glue around
  collaborators that live in other modules (toDate, differenceInCalendarDays, format, ...).
  Those collaborators are parameters of the model, collected in the record \<open>runtime\<close>;
  every theorem below holds for all of them. Each call that formatRelative makes to a
  collaborator is also written to a call log, in the order in which the source evaluates
  it, so that statements about "what is passed to whom, and when" are statements about
  the value the model returns.
\<close>

subsection \<open>JavaScript values\<close>

text \<open>
  A JavaScript number as it occurs in this function: the time value of a Date, a
  calendar-day difference (the result of Math.round), a timezone offset in milliseconds
  and the result of toInteger are all either an integer or NaN.
\<close>

datatype number = NaN | Num int

text \<open>\<^verbatim>\<open>isNaN(x)\<close>\<close>

fun isNaN :: "number \<Rightarrow> bool" where
  "isNaN NaN = True"
| "isNaN (Num n) = False"

text \<open>\<^verbatim>\<open>x < c\<close> for a numeric literal c: every comparison with NaN is false.\<close>

fun less_than :: "number \<Rightarrow> int \<Rightarrow> bool" where
  "less_than NaN c = False"
| "less_than (Num n) c = (n < c)"

text \<open>A Date object wraps a time value; the Date is invalid when that value is NaN.\<close>

datatype Date = Date (getTime: number)

definition isValid :: "Date \<Rightarrow> bool" where
  "isValid d = (\<not> isNaN (getTime d))"

text \<open>The parameter type \<^verbatim>\<open>Date | number\<close> of dirtyDate and dirtyBaseDate.\<close>

datatype DateOrNumber = IsDate Date | IsNumber number

text \<open>\<^verbatim>\<open>FormatRelativeToken\<close>\<close>

datatype FormatRelativeToken = Other | LastWeek | Yesterday | Today | Tomorrow | NextWeek

text \<open>
  A reference to a function or object on the heap. The three facilities of the built-in
  default locale have names of their own; \<open>Ref n\<close> is any other function or object.
\<close>

datatype ref = DefaultLocaleLocalize | DefaultLocaleFormatLong | DefaultLocaleFormatRelative
  | Ref nat

datatype error = TypeError nat nat | RangeError string

subsection \<open>Options and locales\<close>

text \<open>
  \<^verbatim>\<open>WeekStartOptions\<close>, \<^verbatim>\<open>Locale\<close>, \<^verbatim>\<open>FormatRelativeOptions extends LocaleOptions, WeekStartOptions\<close>
  and the process-wide default options. An optional property that is absent (undefined)
  is \<open>None\<close>. Of a locale's own \<^verbatim>\<open>options\<close> only weekStartsOn is read here.
\<close>

record WeekStartOptions =
  weekStartsOn :: "number option"

record Locale =
  localize :: "ref option"
  formatLong :: "ref option"
  formatRelative :: "ref option"
  options :: "WeekStartOptions option"

record FormatRelativeOptions = WeekStartOptions +
  "locale" :: "Locale option"

record DefaultOptions = FormatRelativeOptions +
  firstWeekContainsDate :: "number option"

subsection \<open>The call and its collaborators\<close>

text \<open>
  The JavaScript \<^verbatim>\<open>arguments\<close> object of a call: formatRelative(), formatRelative(d),
  formatRelative(d, b) and formatRelative(d, b, options), where the third argument may
  be passed as undefined.
\<close>

datatype arguments = Args0 | Args1 DateOrNumber | Args2 DateOrNumber DateOrNumber
  | Args3 DateOrNumber DateOrNumber "FormatRelativeOptions option"

fun arguments_length :: "arguments \<Rightarrow> nat" where
  "arguments_length Args0 = 0"
| "arguments_length (Args1 d) = 1"
| "arguments_length (Args2 d b) = 2"
| "arguments_length (Args3 d b opts) = 3"

text \<open>The three formal parameters; a parameter without an argument is undefined.\<close>

fun arg_dirtyDate :: "arguments \<Rightarrow> DateOrNumber option" where
  "arg_dirtyDate Args0 = None"
| "arg_dirtyDate (Args1 d) = Some d"
| "arg_dirtyDate (Args2 d b) = Some d"
| "arg_dirtyDate (Args3 d b opts) = Some d"

fun arg_dirtyBaseDate :: "arguments \<Rightarrow> DateOrNumber option" where
  "arg_dirtyBaseDate Args0 = None"
| "arg_dirtyBaseDate (Args1 d) = None"
| "arg_dirtyBaseDate (Args2 d b) = Some b"
| "arg_dirtyBaseDate (Args3 d b opts) = Some b"

fun arg_options :: "arguments \<Rightarrow> FormatRelativeOptions option" where
  "arg_options Args0 = None"
| "arg_options (Args1 d) = None"
| "arg_options (Args2 d b) = None"
| "arg_options (Args3 d b opts) = opts"

text \<open>
  The imported collaborators whose code is in other modules, as parameters.
  \<open>getDefaultOptions\<close> is the process-wide default options object at the time of the call;
  \<open>defaultLocaleOptions\<close> is the \<^verbatim>\<open>options\<close> property of the built-in default locale;
  \<open>callFormatRelative r\<close> is what calling the function referenced by \<open>r\<close> does.
  The library's own helpers return a value on every input of their type. The locale's
  formatRelative is code that comes with the locale, and the formatter validates its
  arguments: each of the two either throws an error (\<open>Inl\<close>) or returns a string (\<open>Inr\<close>).
\<close>

record runtime =
  toDate :: "DateOrNumber option \<Rightarrow> Date"
  getDefaultOptions :: "DefaultOptions"
  defaultLocaleOptions :: "WeekStartOptions option"
  toInteger :: "number \<Rightarrow> number"
  differenceInCalendarDays :: "Date \<Rightarrow> Date \<Rightarrow> number"
  getTimezoneOffsetInMilliseconds :: "Date \<Rightarrow> number"
  subMilliseconds :: "Date \<Rightarrow> number \<Rightarrow> Date"
  callFormatRelative ::
    "ref \<Rightarrow> FormatRelativeToken \<Rightarrow> Date \<Rightarrow> Date \<Rightarrow> FormatRelativeOptions
      \<Rightarrow> error + string"
  format :: "Date \<Rightarrow> string \<Rightarrow> FormatRelativeOptions \<Rightarrow> error + string"

text \<open>One entry of the call log for each call to a collaborator, with its arguments.\<close>

datatype event =
    ToDate "DateOrNumber option"
  | GetDefaultOptions
  | ToInteger number
  | DifferenceInCalendarDays Date Date
  | GetTimezoneOffsetInMilliseconds Date
  | SubMilliseconds Date number
  | LocaleFormatRelative ref FormatRelativeToken Date Date FormatRelativeOptions
  | Format Date string FormatRelativeOptions

section \<open>formatRelative: the function\<close>

text \<open>
  Modelled from the spec: requiredArgs (\<^verbatim>\<open>src/_lib/requiredArgs/index\<close> is not among the
  sources). Spec section 7: "Arity error: fewer than 2 positional arguments supplied";
  the doc comment of formatRelative: "@throws {TypeError} 2 arguments required".
  \<open>TypeError required present\<close> is that error; \<open>None\<close> means that nothing is thrown.
\<close>

definition requiredArgs :: "nat \<Rightarrow> arguments \<Rightarrow> error option" where
  "requiredArgs required args =
     (if arguments_length args < required
      then Some (TypeError required (arguments_length args)) else None)"

text \<open>
  Modelled from the spec: defaultLocale (\<^verbatim>\<open>src/_lib/defaultLocale/index\<close> is not among the
  sources). Spec section 3: a Locale "must expose three callable facilities: localize,
  formatLong, and formatRelative"; the options' locale "defaults to a process-wide
  default locale". Its own options are not described and are taken from the runtime.
\<close>

definition defaultLocale :: "runtime \<Rightarrow> Locale" where
  "defaultLocale env =
     \<lparr>localize = Some DefaultLocaleLocalize, formatLong = Some DefaultLocaleFormatLong,
      formatRelative = Some DefaultLocaleFormatRelative,
      options = defaultLocaleOptions env\<rparr>"

text \<open>\<^verbatim>\<open>a ?? b\<close> where b may be undefined as well, and \<^verbatim>\<open>a ?? b\<close> where b is a value.\<close>

fun nullish :: "'a option \<Rightarrow> 'a option \<Rightarrow> 'a option" where
  "nullish (Some v) b = Some v"
| "nullish None b = b"

fun nullish_value :: "'a option \<Rightarrow> 'a \<Rightarrow> 'a" where
  "nullish_value (Some v) b = v"
| "nullish_value None b = b"

text \<open>
  Line 67: \<^verbatim>\<open>options?.locale ?? defaultOptions.locale ?? defaultLocale\<close>.
  Optional chaining \<^verbatim>\<open>x?.f\<close> is \<open>Option.bind x f\<close>.
\<close>

definition resolve_locale ::
  "runtime \<Rightarrow> FormatRelativeOptions option \<Rightarrow> DefaultOptions \<Rightarrow> Locale" where
  "resolve_locale env opts defaultOptions =
     nullish_value (nullish (Option.bind opts locale) (locale defaultOptions))
       (defaultLocale env)"

text \<open>Lines 69-73: the argument of toInteger.\<close>

definition weekStartsOn_source ::
  "FormatRelativeOptions option \<Rightarrow> DefaultOptions \<Rightarrow> number" where
  "weekStartsOn_source opts defaultOptions =
     nullish_value
       (nullish (Option.bind opts weekStartsOn)
         (nullish (Option.bind (Option.bind (Option.bind opts locale) options) weekStartsOn)
           (nullish (weekStartsOn defaultOptions)
             (Option.bind (Option.bind (locale defaultOptions) options) weekStartsOn))))
       (Num 0)"

text \<open>Lines 94-109: the cascade that chooses the token.\<close>

definition token_of :: "number \<Rightarrow> FormatRelativeToken" where
  "token_of diff =
     (if less_than diff (- 6) then Other
      else if less_than diff (- 1) then LastWeek
      else if less_than diff 0 then Yesterday
      else if less_than diff 1 then Today
      else if less_than diff 2 then Tomorrow
      else if less_than diff 7 then NextWeek
      else Other)"

text \<open>
  Lines 56-121. The result is the call log together with the outcome: \<open>Inl\<close> an error
  thrown, \<open>Inr\<close> the string returned. An error thrown by the locale's formatRelative at
  line 116 leaves the function there, before the formatter is called.
\<close>

definition formatRelative :: "runtime \<Rightarrow> arguments \<Rightarrow> event list \<times> (error + string)" where
  "formatRelative env args =
     (case requiredArgs 2 args of
        Some err \<Rightarrow> ([], Inl err)
      | None \<Rightarrow>
         (let dirtyDate = arg_dirtyDate args;
              dirtyBaseDate = arg_dirtyBaseDate args;
              opts = arg_options args;
              date = toDate env dirtyDate;
              baseDate = toDate env dirtyBaseDate;
              defaultOptions = getDefaultOptions env;
              loc = resolve_locale env opts defaultOptions;
              wso = toInteger env (weekStartsOn_source opts defaultOptions);
              log1 = [ToDate dirtyDate, ToDate dirtyBaseDate, GetDefaultOptions,
                      ToInteger (weekStartsOn_source opts defaultOptions)]
          in if localize loc = None
             then (log1, Inl (RangeError ''locale must contain localize property''))
             else if formatLong loc = None
             then (log1, Inl (RangeError ''locale must contain formatLong property''))
             else
               (case Locale.formatRelative loc of
                  None \<Rightarrow> (log1, Inl (RangeError ''locale must contain formatRelative property''))
                | Some fr \<Rightarrow>
                   (let diff = differenceInCalendarDays env date baseDate;
                        log2 = log1 @ [DifferenceInCalendarDays date baseDate]
                    in if isNaN diff
                       then (log2, Inl (RangeError ''Invalid time value''))
                       else
                         (let token = token_of diff;
                              offset = getTimezoneOffsetInMilliseconds env date;
                              utcDate = subMilliseconds env date offset;
                              baseOffset = getTimezoneOffsetInMilliseconds env baseDate;
                              utcBaseDate = subMilliseconds env baseDate baseOffset;
                              passed = \<lparr>weekStartsOn = Some wso, locale = Some loc\<rparr>;
                              log3 = log2 @
                                [GetTimezoneOffsetInMilliseconds date,
                                 SubMilliseconds date offset,
                                 GetTimezoneOffsetInMilliseconds baseDate,
                                 SubMilliseconds baseDate baseOffset,
                                 LocaleFormatRelative fr token utcDate utcBaseDate passed]
                          in case callFormatRelative env fr token utcDate utcBaseDate passed of
                               Inl err \<Rightarrow> (log3, Inl err)
                             | Inr formatStr \<Rightarrow>
                                 (log3 @ [Format date formatStr passed],
                                  format env date formatStr passed))))))"

section \<open>Vocabulary for the statements\<close>

text \<open>
  The local variables \<^verbatim>\<open>date\<close>, \<^verbatim>\<open>baseDate\<close>, \<^verbatim>\<open>locale\<close>, \<^verbatim>\<open>weekStartsOn\<close> and \<^verbatim>\<open>diff\<close>
  of a call (lines 63, 64, 67, 68 and 88), as functions of the runtime and the arguments.
\<close>

definition date_of :: "runtime \<Rightarrow> arguments \<Rightarrow> Date" where
  "date_of env args = toDate env (arg_dirtyDate args)"

definition baseDate_of :: "runtime \<Rightarrow> arguments \<Rightarrow> Date" where
  "baseDate_of env args = toDate env (arg_dirtyBaseDate args)"

definition locale_of :: "runtime \<Rightarrow> arguments \<Rightarrow> Locale" where
  "locale_of env args = resolve_locale env (arg_options args) (getDefaultOptions env)"

definition weekStartsOn_of :: "runtime \<Rightarrow> arguments \<Rightarrow> number" where
  "weekStartsOn_of env args =
     toInteger env (weekStartsOn_source (arg_options args) (getDefaultOptions env))"

definition diff_of :: "runtime \<Rightarrow> arguments \<Rightarrow> number" where
  "diff_of env args = differenceInCalendarDays env (date_of env args) (baseDate_of env args)"

text \<open>The object literal \<^verbatim>\<open>{ locale, weekStartsOn }\<close> of lines 116-120.\<close>

definition passed_options :: "runtime \<Rightarrow> arguments \<Rightarrow> FormatRelativeOptions" where
  "passed_options env args =
     \<lparr>weekStartsOn = Some (weekStartsOn_of env args), locale = Some (locale_of env args)\<rparr>"

text \<open>\<^verbatim>\<open>utcDate\<close> and \<^verbatim>\<open>utcBaseDate\<close> of lines 111-115: a date minus its own offset.\<close>

definition utc_normalized :: "runtime \<Rightarrow> Date \<Rightarrow> Date" where
  "utc_normalized env d = subMilliseconds env d (getTimezoneOffsetInMilliseconds env d)"

text \<open>
  The call of line 116 to the formatRelative \<open>fr\<close> of the locale: \<open>Inr\<close> the pattern
  \<^verbatim>\<open>formatStr\<close> that it returns, or \<open>Inl\<close> the error that it throws.
\<close>

definition locale_call :: "runtime \<Rightarrow> arguments \<Rightarrow> ref \<Rightarrow> error + string" where
  "locale_call env args fr =
     callFormatRelative env fr (token_of (diff_of env args))
       (utc_normalized env (date_of env args)) (utc_normalized env (baseDate_of env args))
       (passed_options env args)"

text \<open>A locale that has all three capabilities: none of the checks of lines 76-86 fires.\<close>

definition capable :: "Locale \<Rightarrow> bool" where
  "capable l = (localize l \<noteq> None \<and> formatLong l \<noteq> None \<and> Locale.formatRelative l \<noteq> None)"

text \<open>The calls made before the locale checks (lines 63-74).\<close>

definition prelude :: "runtime \<Rightarrow> arguments \<Rightarrow> event list" where
  "prelude env args =
     [ToDate (arg_dirtyDate args), ToDate (arg_dirtyBaseDate args), GetDefaultOptions,
      ToInteger (weekStartsOn_source (arg_options args) (getDefaultOptions env))]"

text \<open>
  The calls of a call that passes the checks, up to and including the call to the
  formatRelative \<open>fr\<close> of the locale (lines 88-119).
\<close>

definition calls_up_to_locale :: "runtime \<Rightarrow> arguments \<Rightarrow> ref \<Rightarrow> event list" where
  "calls_up_to_locale env args fr =
     prelude env args @
     [DifferenceInCalendarDays (date_of env args) (baseDate_of env args),
      GetTimezoneOffsetInMilliseconds (date_of env args),
      SubMilliseconds (date_of env args)
        (getTimezoneOffsetInMilliseconds env (date_of env args)),
      GetTimezoneOffsetInMilliseconds (baseDate_of env args),
      SubMilliseconds (baseDate_of env args)
        (getTimezoneOffsetInMilliseconds env (baseDate_of env args)),
      LocaleFormatRelative fr (token_of (diff_of env args))
        (utc_normalized env (date_of env args)) (utc_normalized env (baseDate_of env args))
        (passed_options env args)]"

text \<open>The tokens handed to a locale's formatRelative, read off a call log.\<close>

fun selected_tokens :: "event list \<Rightarrow> FormatRelativeToken list" where
  "selected_tokens [] = []"
| "selected_tokens (LocaleFormatRelative r t d b p # es) = t # selected_tokens es"
| "selected_tokens (e # es) = selected_tokens es"

text \<open>
  The priority chain of the specification, section 4.1: "explicit option, locale's own
  configured default, process-wide default option, process-wide default's locale default",
  and the first defined value of a chain.
\<close>

fun first_defined :: "'a option list \<Rightarrow> 'a option" where
  "first_defined [] = None"
| "first_defined (None # xs) = first_defined xs"
| "first_defined (Some v # xs) = Some v"

definition explicit_weekStartsOn :: "FormatRelativeOptions option \<Rightarrow> number option" where
  "explicit_weekStartsOn opts = (case opts of None \<Rightarrow> None | Some p \<Rightarrow> weekStartsOn p)"

definition locale_default_weekStartsOn :: "Locale option \<Rightarrow> number option" where
  "locale_default_weekStartsOn l =
     (case l of None \<Rightarrow> None
      | Some loc \<Rightarrow> (case options loc of None \<Rightarrow> None | Some p \<Rightarrow> weekStartsOn p))"

definition options_locale :: "FormatRelativeOptions option \<Rightarrow> Locale option" where
  "options_locale opts = (case opts of None \<Rightarrow> None | Some p \<Rightarrow> locale p)"

definition weekStartsOn_chain ::
  "FormatRelativeOptions option \<Rightarrow> DefaultOptions \<Rightarrow> number option list" where
  "weekStartsOn_chain opts defaultOptions =
     [explicit_weekStartsOn opts,
      locale_default_weekStartsOn (options_locale opts),
      weekStartsOn defaultOptions,
      locale_default_weekStartsOn (locale defaultOptions)]"

definition effective_weekStartsOn ::
  "runtime \<Rightarrow> FormatRelativeOptions option \<Rightarrow> DefaultOptions \<Rightarrow> number" where
  "effective_weekStartsOn env opts defaultOptions =
     toInteger env
       (case first_defined (weekStartsOn_chain opts defaultOptions) of
          Some v \<Rightarrow> v | None \<Rightarrow> Num 0)"

text \<open>The errors that formatRelative throws itself (lines 61, 77, 81, 85 and 91).\<close>

definition own_errors :: "arguments \<Rightarrow> error set" where
  "own_errors args =
     {TypeError 2 (arguments_length args),
      RangeError ''locale must contain localize property'',
      RangeError ''locale must contain formatLong property'',
      RangeError ''locale must contain formatRelative property'',
      RangeError ''Invalid time value''}"

section \<open>An example runtime\<close>

text \<open>
  A concrete runtime on which the theorems are exercised: time values are confined to
  the range of a Date (8640000000000000 milliseconds either side of the epoch), the
  timezone is one hour east of UTC, the calendar-day difference is taken between the
  local starts of the two days, the built-in locale returns a pattern for each token,
  a user-supplied locale looks at the week start for the two week tokens and throws
  when it is not a day of the week, and the formatter validates its arguments and then
  returns the pattern as it is.
\<close>

definition timeClip :: "int \<Rightarrow> number" where
  "timeClip t = (if - 8640000000000000 \<le> t \<and> t \<le> 8640000000000000 then Num t else NaN)"

definition example_toDate :: "DateOrNumber option \<Rightarrow> Date" where
  "example_toDate x =
     (case x of
        None \<Rightarrow> Date NaN
      | Some (IsDate d) \<Rightarrow> d
      | Some (IsNumber NaN) \<Rightarrow> Date NaN
      | Some (IsNumber (Num t)) \<Rightarrow> Date (timeClip t))"

definition example_offset :: "Date \<Rightarrow> number" where
  "example_offset d = (case getTime d of NaN \<Rightarrow> NaN | Num t \<Rightarrow> Num (- 3600000))"

definition example_subMilliseconds :: "Date \<Rightarrow> number \<Rightarrow> Date" where
  "example_subMilliseconds d amount =
     (case (getTime d, amount) of (Num t, Num a) \<Rightarrow> Date (timeClip (t - a)) | _ \<Rightarrow> Date NaN)"

definition example_startOfDay :: "Date \<Rightarrow> Date" where
  "example_startOfDay d =
     (case getTime d of
        NaN \<Rightarrow> Date NaN
      | Num t \<Rightarrow> Date (timeClip (t - (t + 3600000) mod 86400000)))"

definition example_differenceInCalendarDays :: "Date \<Rightarrow> Date \<Rightarrow> number" where
  "example_differenceInCalendarDays a b =
     (case (getTime (example_startOfDay a), getTime (example_startOfDay b)) of
        (Num x, Num y) \<Rightarrow> Num ((x - y) div 86400000) | _ \<Rightarrow> NaN)"

fun example_pattern :: "FormatRelativeToken \<Rightarrow> string" where
  "example_pattern Other = ''P''"
| "example_pattern LastWeek = ''last eeee at p''"
| "example_pattern Yesterday = ''yesterday at p''"
| "example_pattern Today = ''today at p''"
| "example_pattern Tomorrow = ''tomorrow at p''"
| "example_pattern NextWeek = ''eeee at p''"

definition is_day :: "number option \<Rightarrow> bool" where
  "is_day w = (case w of Some (Num n) \<Rightarrow> 0 \<le> n \<and> n \<le> 6 | _ \<Rightarrow> False)"

definition example_callFormatRelative ::
  "ref \<Rightarrow> FormatRelativeToken \<Rightarrow> Date \<Rightarrow> Date \<Rightarrow> FormatRelativeOptions \<Rightarrow> error + string" where
  "example_callFormatRelative r token d b opts =
     (case r of
        Ref n \<Rightarrow>
          if (token = LastWeek \<or> token = NextWeek) \<and> \<not> is_day (weekStartsOn opts)
          then Inl (RangeError ''weekStartsOn must be between 0 and 6 inclusively'')
          else Inr (example_pattern token)
      | _ \<Rightarrow> Inr (example_pattern token))"

definition example_format :: "Date \<Rightarrow> string \<Rightarrow> FormatRelativeOptions \<Rightarrow> error + string" where
  "example_format d formatStr opts =
     (if \<not> is_day (weekStartsOn opts)
      then Inl (RangeError ''weekStartsOn must be between 0 and 6 inclusively'')
      else if isValid d then Inr formatStr
      else Inl (RangeError ''Invalid time value''))"

definition example_runtime :: runtime where
  "example_runtime =
     \<lparr>toDate = example_toDate,
      getDefaultOptions = \<lparr>weekStartsOn = None, locale = None, firstWeekContainsDate = None\<rparr>,
      defaultLocaleOptions = Some \<lparr>weekStartsOn = Some (Num 0)\<rparr>,
      toInteger = (\<lambda>n. n),
      differenceInCalendarDays = example_differenceInCalendarDays,
      getTimezoneOffsetInMilliseconds = example_offset,
      subMilliseconds = example_subMilliseconds,
      callFormatRelative = example_callFormatRelative,
      format = example_format\<rparr>"

text \<open>Two user-supplied locales: a complete one, and one without formatRelative.\<close>

definition example_locale :: Locale where
  "example_locale =
     \<lparr>localize = Some (Ref 1), formatLong = Some (Ref 2), formatRelative = Some (Ref 3),
      options = Some \<lparr>weekStartsOn = Some (Num 1)\<rparr>\<rparr>"

definition locale_without_formatRelative :: Locale where
  "locale_without_formatRelative =
     \<lparr>localize = Some (Ref 1), formatLong = Some (Ref 2), formatRelative = None,
      options = None\<rparr>"

section \<open>How a call runs\<close>

text \<open>
  One lemma for each way in which a call can end: the arity error, the three locale
  errors, the invalid time value, an error thrown by the locale's formatRelative, and
  the call that reaches the formatter.
\<close>

lemma formatRelative_too_few:
  assumes "arguments_length args < 2"
  shows "formatRelative env args = ([], Inl (TypeError 2 (arguments_length args)))"
  using assms by (simp add: formatRelative_def requiredArgs_def)

lemma formatRelative_no_localize:
  assumes "2 \<le> arguments_length args" and "localize (locale_of env args) = None"
  shows "formatRelative env args =
    (prelude env args, Inl (RangeError ''locale must contain localize property''))"
  using assms by (simp add: formatRelative_def requiredArgs_def locale_of_def prelude_def Let_def)

lemma formatRelative_no_formatLong:
  assumes "2 \<le> arguments_length args" and "localize (locale_of env args) \<noteq> None"
    and "formatLong (locale_of env args) = None"
  shows "formatRelative env args =
    (prelude env args, Inl (RangeError ''locale must contain formatLong property''))"
  using assms by (simp add: formatRelative_def requiredArgs_def locale_of_def prelude_def Let_def)

lemma formatRelative_no_formatRelative:
  assumes "2 \<le> arguments_length args" and "localize (locale_of env args) \<noteq> None"
    and "formatLong (locale_of env args) \<noteq> None"
    and "Locale.formatRelative (locale_of env args) = None"
  shows "formatRelative env args =
    (prelude env args, Inl (RangeError ''locale must contain formatRelative property''))"
  using assms by (simp add: formatRelative_def requiredArgs_def locale_of_def prelude_def Let_def)

lemma formatRelative_invalid_diff:
  assumes "2 \<le> arguments_length args" and "capable (locale_of env args)"
    and "isNaN (diff_of env args)"
  shows "formatRelative env args =
    (prelude env args @ [DifferenceInCalendarDays (date_of env args) (baseDate_of env args)],
     Inl (RangeError ''Invalid time value''))"
  using assms
  by (auto simp add: formatRelative_def requiredArgs_def locale_of_def prelude_def Let_def
      capable_def diff_of_def date_of_def baseDate_of_def)

lemma formatRelative_locale_throws:
  assumes "2 \<le> arguments_length args" and "capable (locale_of env args)"
    and "\<not> isNaN (diff_of env args)"
    and "Locale.formatRelative (locale_of env args) = Some fr"
    and "locale_call env args fr = Inl err"
  shows "formatRelative env args = (calls_up_to_locale env args fr, Inl err)"
  using assms
  by (auto simp add: formatRelative_def requiredArgs_def locale_of_def prelude_def Let_def
      capable_def diff_of_def date_of_def baseDate_of_def utc_normalized_def passed_options_def
      weekStartsOn_of_def locale_call_def calls_up_to_locale_def)

lemma formatRelative_success:
  assumes "2 \<le> arguments_length args" and "capable (locale_of env args)"
    and "\<not> isNaN (diff_of env args)"
    and "Locale.formatRelative (locale_of env args) = Some fr"
    and "locale_call env args fr = Inr formatStr"
  shows "formatRelative env args =
    (calls_up_to_locale env args fr
       @ [Format (date_of env args) formatStr (passed_options env args)],
     format env (date_of env args) formatStr (passed_options env args))"
  using assms
  by (auto simp add: formatRelative_def requiredArgs_def locale_of_def prelude_def Let_def
      capable_def diff_of_def date_of_def baseDate_of_def utc_normalized_def passed_options_def
      weekStartsOn_of_def locale_call_def calls_up_to_locale_def)

lemma token_of_Num:
  "token_of (Num i) =
     (if i < - 6 then Other else if i < - 1 then LastWeek else if i = - 1 then Yesterday
      else if i = 0 then Today else if i = 1 then Tomorrow else if i < 7 then NextWeek
      else Other)"
  by (simp add: token_of_def)

lemma selected_tokens_prelude: "selected_tokens (prelude env args @ es) = selected_tokens es"
  by (simp add: prelude_def)

lemma selected_tokens_append: "selected_tokens (xs @ ys) = selected_tokens xs @ selected_tokens ys"
  by (induction xs rule: selected_tokens.induct) simp_all

lemma selected_tokens_up_to_locale:
  "selected_tokens (calls_up_to_locale env args fr) = [token_of (diff_of env args)]"
  by (simp add: calls_up_to_locale_def selected_tokens_prelude)

lemma formatRelative_cases:
  obtains
    (too_few) "arguments_length args < 2"
      and "formatRelative env args = ([], Inl (TypeError 2 (arguments_length args)))"
  | (no_localize) "2 \<le> arguments_length args" and "localize (locale_of env args) = None"
      and "formatRelative env args =
        (prelude env args, Inl (RangeError ''locale must contain localize property''))"
  | (no_formatLong) "2 \<le> arguments_length args" and "localize (locale_of env args) \<noteq> None"
      and "formatLong (locale_of env args) = None"
      and "formatRelative env args =
        (prelude env args, Inl (RangeError ''locale must contain formatLong property''))"
  | (no_formatRelative) "2 \<le> arguments_length args"
      and "localize (locale_of env args) \<noteq> None"
      and "formatLong (locale_of env args) \<noteq> None"
      and "Locale.formatRelative (locale_of env args) = None"
      and "formatRelative env args =
        (prelude env args, Inl (RangeError ''locale must contain formatRelative property''))"
  | (invalid) "2 \<le> arguments_length args" and "capable (locale_of env args)"
      and "isNaN (diff_of env args)"
      and "formatRelative env args =
        (prelude env args @
           [DifferenceInCalendarDays (date_of env args) (baseDate_of env args)],
         Inl (RangeError ''Invalid time value''))"
  | (locale_throws) fr err where "2 \<le> arguments_length args"
      and "capable (locale_of env args)"
      and "\<not> isNaN (diff_of env args)"
      and "Locale.formatRelative (locale_of env args) = Some fr"
      and "locale_call env args fr = Inl err"
      and "formatRelative env args = (calls_up_to_locale env args fr, Inl err)"
  | (success) fr formatStr where "2 \<le> arguments_length args"
      and "capable (locale_of env args)"
      and "\<not> isNaN (diff_of env args)"
      and "Locale.formatRelative (locale_of env args) = Some fr"
      and "locale_call env args fr = Inr formatStr"
      and "formatRelative env args =
        (calls_up_to_locale env args fr
           @ [Format (date_of env args) formatStr (passed_options env args)],
         format env (date_of env args) formatStr (passed_options env args))"
proof (cases "arguments_length args < 2")
  case True
  then show ?thesis
    using too_few formatRelative_too_few by blast
next
  case False
  then have two: "2 \<le> arguments_length args"
    by simp
  show ?thesis
  proof (cases "localize (locale_of env args)")
    case None
    then show ?thesis
      using no_localize two formatRelative_no_localize by blast
  next
    case l: (Some a)
    show ?thesis
    proof (cases "formatLong (locale_of env args)")
      case None
      then show ?thesis
        using no_formatLong two l formatRelative_no_formatLong by simp
    next
      case fl: (Some b)
      show ?thesis
      proof (cases "Locale.formatRelative (locale_of env args)")
        case None
        then show ?thesis
          using no_formatRelative two l fl formatRelative_no_formatRelative by simp
      next
        case fr: (Some c)
        have cap: "capable (locale_of env args)"
          by (simp add: capable_def l fl fr)
        show ?thesis
        proof (cases "isNaN (diff_of env args)")
          case True
          then show ?thesis
            using invalid two cap formatRelative_invalid_diff by blast
        next
          case valid: False
          show ?thesis
          proof (cases "locale_call env args c")
            case (Inl err)
            then show ?thesis
              using locale_throws two cap valid fr formatRelative_locale_throws by blast
          next
            case (Inr formatStr)
            then show ?thesis
              using success two cap valid fr formatRelative_success by blast
          qed
        qed
      qed
    qed
  qed
qed

lemma nullish_first_defined:
  "nullish_value (nullish a (nullish b (nullish c d))) z =
     (case first_defined [a, b, c, d] of Some v \<Rightarrow> v | None \<Rightarrow> z)"
  by (cases a; cases b; cases c; cases d) simp_all

lemma optional_chaining:
  "Option.bind opts weekStartsOn = explicit_weekStartsOn opts"
  "Option.bind opts locale = options_locale opts"
  "Option.bind (Option.bind l options) weekStartsOn = locale_default_weekStartsOn l"
  by (simp_all add: explicit_weekStartsOn_def options_locale_def
      locale_default_weekStartsOn_def split: option.splits)

lemma weekStartsOn_source_chain:
  "weekStartsOn_source opts defaultOptions =
     (case first_defined (weekStartsOn_chain opts defaultOptions) of
        Some v \<Rightarrow> v | None \<Rightarrow> Num 0)"
  by (simp only: weekStartsOn_source_def weekStartsOn_chain_def optional_chaining
      nullish_first_defined)

lemma toInteger_irrelevant:
  "date_of (env\<lparr>toInteger := g\<rparr>) args = date_of env args"
  "baseDate_of (env\<lparr>toInteger := g\<rparr>) args = baseDate_of env args"
  "locale_of (env\<lparr>toInteger := g\<rparr>) args = locale_of env args"
  "diff_of (env\<lparr>toInteger := g\<rparr>) args = diff_of env args"
  by (simp_all add: date_of_def baseDate_of_def locale_of_def diff_of_def resolve_locale_def
      defaultLocale_def)

lemma locale_call_logged:
  "LocaleFormatRelative fr (token_of (diff_of env args))
     (utc_normalized env (date_of env args)) (utc_normalized env (baseDate_of env args))
     (passed_options env args) \<in> set (calls_up_to_locale env args fr)"
  by (simp add: calls_up_to_locale_def)

lemma reaches_locale:
  "(\<exists>r t d b p. LocaleFormatRelative r t d b p \<in> set (fst (formatRelative env args))) =
     (2 \<le> arguments_length args \<and> capable (locale_of env args) \<and> \<not> isNaN (diff_of env args))"
proof (cases rule: formatRelative_cases [of args env])
  case too_few
  then show ?thesis by simp
next
  case no_localize
  then show ?thesis by (simp add: capable_def prelude_def)
next
  case no_formatLong
  then show ?thesis by (simp add: capable_def prelude_def)
next
  case no_formatRelative
  then show ?thesis by (simp add: capable_def prelude_def)
next
  case invalid
  then show ?thesis by (simp add: prelude_def)
next
  case (locale_throws fr err)
  have "LocaleFormatRelative fr (token_of (diff_of env args))
     (utc_normalized env (date_of env args)) (utc_normalized env (baseDate_of env args))
     (passed_options env args) \<in> set (fst (formatRelative env args))"
    by (simp add: locale_throws(6) locale_call_logged)
  with locale_throws(1-3) show ?thesis by blast
next
  case (success fr formatStr)
  have "LocaleFormatRelative fr (token_of (diff_of env args))
     (utc_normalized env (date_of env args)) (utc_normalized env (baseDate_of env args))
     (passed_options env args) \<in> set (fst (formatRelative env args))"
    by (simp add: success(6) locale_call_logged)
  with success(1-3) show ?thesis by blast
qed

lemmas call_defs = date_of_def baseDate_of_def locale_of_def weekStartsOn_of_def diff_of_def
  passed_options_def utc_normalized_def locale_call_def calls_up_to_locale_def prelude_def
  resolve_locale_def weekStartsOn_source_def defaultLocale_def capable_def

lemmas example_defs = example_runtime_def example_toDate_def example_offset_def
  example_subMilliseconds_def example_startOfDay_def example_differenceInCalendarDays_def
  example_callFormatRelative_def example_format_def example_locale_def
  locale_without_formatRelative_def isValid_def timeClip_def is_day_def

section \<open>The claims\<close>

text \<open>
  C1. In a call that passes the checks of formatRelative (two arguments, a locale with
  the three capabilities, a calendar-day difference that is a number), the token handed
  to the locale is a function of the integer \<open>diff\<close> alone, and it is the one of the
  table: below -6 \<open>other\<close>, from -6 to -2 \<open>lastWeek\<close>, -1 \<open>yesterday\<close>, 0 \<open>today\<close>,
  1 \<open>tomorrow\<close>, from 2 to 6 \<open>nextWeek\<close>, 7 and above \<open>other\<close>; with the seven boundary
  values -7, -6, -1, 0, 1, 6 and 7.
\<close>

theorem formatRelative_token_cascade:
  assumes "2 \<le> arguments_length args"
    and "capable (locale_of env args)"
    and "diff_of env args = Num diff"
  shows "selected_tokens (fst (formatRelative env args)) = [token_of (Num diff)]
    \<and> (diff < - 6 \<longrightarrow> token_of (Num diff) = Other)
    \<and> (- 6 \<le> diff \<and> diff < - 1 \<longrightarrow> token_of (Num diff) = LastWeek)
    \<and> (diff = - 1 \<longrightarrow> token_of (Num diff) = Yesterday)
    \<and> (diff = 0 \<longrightarrow> token_of (Num diff) = Today)
    \<and> (diff = 1 \<longrightarrow> token_of (Num diff) = Tomorrow)
    \<and> (2 \<le> diff \<and> diff < 7 \<longrightarrow> token_of (Num diff) = NextWeek)
    \<and> (7 \<le> diff \<longrightarrow> token_of (Num diff) = Other)
    \<and> token_of (Num (- 7)) = Other \<and> token_of (Num (- 6)) = LastWeek
    \<and> token_of (Num (- 1)) = Yesterday \<and> token_of (Num 0) = Today
    \<and> token_of (Num 1) = Tomorrow \<and> token_of (Num 6) = NextWeek
    \<and> token_of (Num 7) = Other"
proof -
  from assms(2) obtain fr where fr: "Locale.formatRelative (locale_of env args) = Some fr"
    by (auto simp add: capable_def)
  from assms(3) have valid: "\<not> isNaN (diff_of env args)"
    by simp
  have "selected_tokens (fst (formatRelative env args)) = [token_of (diff_of env args)]"
  proof (cases "locale_call env args fr")
    case (Inl err)
    then show ?thesis
      by (simp add: formatRelative_locale_throws [OF assms(1) assms(2) valid fr]
          selected_tokens_up_to_locale)
  next
    case (Inr formatStr)
    then show ?thesis
      by (simp add: formatRelative_success [OF assms(1) assms(2) valid fr]
          selected_tokens_append selected_tokens_up_to_locale)
  qed
  then have chosen: "selected_tokens (fst (formatRelative env args)) = [token_of (Num diff)]"
    by (simp add: assms(3))
  have buckets: "(diff < - 6 \<longrightarrow> token_of (Num diff) = Other)
    \<and> (- 6 \<le> diff \<and> diff < - 1 \<longrightarrow> token_of (Num diff) = LastWeek)
    \<and> (diff = - 1 \<longrightarrow> token_of (Num diff) = Yesterday)
    \<and> (diff = 0 \<longrightarrow> token_of (Num diff) = Today)
    \<and> (diff = 1 \<longrightarrow> token_of (Num diff) = Tomorrow)
    \<and> (2 \<le> diff \<and> diff < 7 \<longrightarrow> token_of (Num diff) = NextWeek)
    \<and> (7 \<le> diff \<longrightarrow> token_of (Num diff) = Other)"
    by (simp add: token_of_Num)
  have boundaries: "token_of (Num (- 7)) = Other \<and> token_of (Num (- 6)) = LastWeek
    \<and> token_of (Num (- 1)) = Yesterday \<and> token_of (Num 0) = Today
    \<and> token_of (Num 1) = Tomorrow \<and> token_of (Num 6) = NextWeek
    \<and> token_of (Num 7) = Other"
    by (simp add: token_of_Num)
  from chosen buckets boundaries show ?thesis
    by blast
qed

theorem formatRelative_token_cascade_witness:
  "2 \<le> arguments_length (Args2 (IsNumber (Num 345600000)) (IsNumber (Num 864000000)))
   \<and> capable (locale_of example_runtime
        (Args2 (IsNumber (Num 345600000)) (IsNumber (Num 864000000))))
   \<and> diff_of example_runtime
        (Args2 (IsNumber (Num 345600000)) (IsNumber (Num 864000000))) = Num (- 6)
   \<and> selected_tokens (fst (formatRelative example_runtime
        (Args2 (IsNumber (Num 345600000)) (IsNumber (Num 864000000))))) = [LastWeek]"
proof -
  let ?a = "Args2 (IsNumber (Num 345600000)) (IsNumber (Num 864000000))"
  have h1: "2 \<le> arguments_length ?a"
    by simp
  have h2: "capable (locale_of example_runtime ?a)"
    by (simp add: call_defs example_defs)
  have h3: "diff_of example_runtime ?a = Num (- 6)"
    by (simp add: call_defs example_defs)
  from formatRelative_token_cascade [OF h1 h2 h3] h1 h2 h3 show ?thesis
    by simp
qed

text \<open>
  C2, as stated: "for every date or baseDate whose coercion yields an invalid instant,
  formatRelative raises the error Invalid time value". The locale checks of lines 76-86
  come first: with an invalid date and a locale that lacks formatRelative, the error
  raised is the one of the locale.
\<close>

theorem invalid_date_defective_locale_counterexample:
  "\<not> isValid (date_of example_runtime
       (Args3 (IsNumber NaN) (IsNumber (Num 864000000))
          (Some \<lparr>weekStartsOn = None, locale = Some locale_without_formatRelative\<rparr>)))
   \<and> isNaN (diff_of example_runtime
       (Args3 (IsNumber NaN) (IsNumber (Num 864000000))
          (Some \<lparr>weekStartsOn = None, locale = Some locale_without_formatRelative\<rparr>)))
   \<and> snd (formatRelative example_runtime
       (Args3 (IsNumber NaN) (IsNumber (Num 864000000))
          (Some \<lparr>weekStartsOn = None, locale = Some locale_without_formatRelative\<rparr>)))
     = Inl (RangeError ''locale must contain formatRelative property'')
   \<and> snd (formatRelative example_runtime
       (Args3 (IsNumber NaN) (IsNumber (Num 864000000))
          (Some \<lparr>weekStartsOn = None, locale = Some locale_without_formatRelative\<rparr>)))
     \<noteq> Inl (RangeError ''Invalid time value'')"
  by (simp add: formatRelative_def requiredArgs_def Let_def call_defs example_defs)

text \<open>
  C2, amended. Whenever the calendar-day difference of the two coerced arguments is NaN
  (as it is for an invalid date or baseDate), formatRelative never returns a string; and
  when the call has its two arguments and the resolved locale has the three capabilities,
  the error raised is the RangeError "Invalid time value", before any token is selected
  and without a call to the formatter.
\<close>

theorem formatRelative_invalid_time_value:
  assumes "isNaN (diff_of env args)"
  shows "(\<exists>e. snd (formatRelative env args) = Inl e)
    \<and> (2 \<le> arguments_length args \<and> capable (locale_of env args) \<longrightarrow>
         snd (formatRelative env args) = Inl (RangeError ''Invalid time value'')
         \<and> selected_tokens (fst (formatRelative env args)) = []
         \<and> (\<forall>d s p. Format d s p \<notin> set (fst (formatRelative env args))))"
proof (cases rule: formatRelative_cases [of args env])
  case too_few
  then show ?thesis by simp
next
  case no_localize
  then show ?thesis by (simp add: capable_def)
next
  case no_formatLong
  then show ?thesis by (simp add: capable_def)
next
  case no_formatRelative
  then show ?thesis by (simp add: capable_def)
next
  case invalid
  then show ?thesis by (simp add: prelude_def)
next
  case (locale_throws fr err)
  with assms show ?thesis by simp
next
  case (success fr formatStr)
  with assms show ?thesis by simp
qed

theorem formatRelative_invalid_time_value_witness:
  "isNaN (diff_of example_runtime (Args2 (IsNumber NaN) (IsNumber (Num 864000000))))
   \<and> 2 \<le> arguments_length (Args2 (IsNumber NaN) (IsNumber (Num 864000000)))
   \<and> capable (locale_of example_runtime (Args2 (IsNumber NaN) (IsNumber (Num 864000000))))
   \<and> snd (formatRelative example_runtime (Args2 (IsNumber NaN) (IsNumber (Num 864000000))))
       = Inl (RangeError ''Invalid time value'')"
proof -
  let ?a = "Args2 (IsNumber NaN) (IsNumber (Num 864000000))"
  have h: "isNaN (diff_of example_runtime ?a)"
    by (simp add: call_defs example_defs)
  have h1: "2 \<le> arguments_length ?a"
    by simp
  have h2: "capable (locale_of example_runtime ?a)"
    by (simp add: call_defs example_defs)
  from formatRelative_invalid_time_value [OF h] h h1 h2 show ?thesis
    by simp
qed

text \<open>
  C3. In a call with its two arguments, the resolved locale goes through three presence
  checks, for localize, formatLong and formatRelative in this order; the first missing
  capability is reported by a RangeError that names it, and the three messages differ.
  In particular a locale that has localize and formatLong and lacks formatRelative raises
  "locale must contain formatRelative property".
\<close>

theorem formatRelative_missing_capability:
  assumes "2 \<le> arguments_length args"
  shows "(localize (locale_of env args) = None \<longrightarrow>
           snd (formatRelative env args)
             = Inl (RangeError ''locale must contain localize property''))
    \<and> (localize (locale_of env args) \<noteq> None \<and> formatLong (locale_of env args) = None \<longrightarrow>
           snd (formatRelative env args)
             = Inl (RangeError ''locale must contain formatLong property''))
    \<and> (localize (locale_of env args) \<noteq> None \<and> formatLong (locale_of env args) \<noteq> None
         \<and> Locale.formatRelative (locale_of env args) = None \<longrightarrow>
           snd (formatRelative env args)
             = Inl (RangeError ''locale must contain formatRelative property''))
    \<and> distinct [RangeError ''locale must contain localize property'',
         RangeError ''locale must contain formatLong property'',
         RangeError ''locale must contain formatRelative property'']"
  using assms
  by (simp add: formatRelative_no_localize formatRelative_no_formatLong
      formatRelative_no_formatRelative)

theorem formatRelative_missing_capability_witness:
  "2 \<le> arguments_length
       (Args3 (IsNumber (Num 345600000)) (IsNumber (Num 864000000))
          (Some \<lparr>weekStartsOn = None, locale = Some locale_without_formatRelative\<rparr>))
   \<and> localize locale_without_formatRelative \<noteq> None
   \<and> formatLong locale_without_formatRelative \<noteq> None
   \<and> Locale.formatRelative locale_without_formatRelative = None
   \<and> snd (formatRelative example_runtime
       (Args3 (IsNumber (Num 345600000)) (IsNumber (Num 864000000))
          (Some \<lparr>weekStartsOn = None, locale = Some locale_without_formatRelative\<rparr>)))
     = Inl (RangeError ''locale must contain formatRelative property'')"
proof -
  let ?a = "Args3 (IsNumber (Num 345600000)) (IsNumber (Num 864000000))
          (Some \<lparr>weekStartsOn = None, locale = Some locale_without_formatRelative\<rparr>)"
  have h: "2 \<le> arguments_length ?a"
    by simp
  have l: "locale_of example_runtime ?a = locale_without_formatRelative"
    by (simp add: call_defs)
  from formatRelative_missing_capability [OF h, of example_runtime] l show ?thesis
    by (simp add: locale_without_formatRelative_def)
qed

text \<open>
  C4. A call with fewer than two arguments raises the argument-count error, and its
  call log is empty: the check precedes every collaborator call, toDate included.
\<close>

theorem formatRelative_arity_first:
  assumes "arguments_length args < 2"
  shows "snd (formatRelative env args) = Inl (TypeError 2 (arguments_length args))
    \<and> fst (formatRelative env args) = []
    \<and> (\<forall>x. ToDate x \<notin> set (fst (formatRelative env args)))"
  using assms by (simp add: formatRelative_too_few)

theorem formatRelative_arity_first_witness:
  "arguments_length (Args1 (IsNumber (Num 864000000))) < 2
   \<and> formatRelative example_runtime (Args1 (IsNumber (Num 864000000)))
       = ([], Inl (TypeError 2 1))"
proof -
  have h: "arguments_length (Args1 (IsNumber (Num 864000000))) < 2"
    by simp
  from formatRelative_arity_first [OF h, of example_runtime] h show ?thesis
    by (simp add: prod_eq_iff)
qed

text \<open>
  C5. The value given to toInteger is the first defined value of the chain: the explicit
  option \<^verbatim>\<open>options.weekStartsOn\<close>, the configured default of the locale given in the
  options (\<^verbatim>\<open>options.locale.options.weekStartsOn\<close>), the process-wide default option,
  the configured default of the process-wide default locale, and the literal 0 when none
  is defined. The result of that coercion is the weekStartsOn of the call: it is what
  every call to the locale's formatRelative and to the formatter receives.
\<close>

theorem weekStartsOn_priority:
  assumes "2 \<le> arguments_length args"
  shows "weekStartsOn_of env args
        = effective_weekStartsOn env (arg_options args) (getDefaultOptions env)
    \<and> ToInteger
         (case first_defined (weekStartsOn_chain (arg_options args) (getDefaultOptions env)) of
            Some v \<Rightarrow> v | None \<Rightarrow> Num 0)
        \<in> set (fst (formatRelative env args))
    \<and> (\<forall>r t d b p. LocaleFormatRelative r t d b p \<in> set (fst (formatRelative env args)) \<longrightarrow>
          weekStartsOn p
            = Some (effective_weekStartsOn env (arg_options args) (getDefaultOptions env)))
    \<and> (\<forall>d s p. Format d s p \<in> set (fst (formatRelative env args)) \<longrightarrow>
          weekStartsOn p
            = Some (effective_weekStartsOn env (arg_options args) (getDefaultOptions env)))"
proof -
  have eff: "weekStartsOn_of env args
      = effective_weekStartsOn env (arg_options args) (getDefaultOptions env)"
    by (simp add: weekStartsOn_of_def effective_weekStartsOn_def weekStartsOn_source_chain)
  have pre: "ToInteger
      (case first_defined (weekStartsOn_chain (arg_options args) (getDefaultOptions env)) of
         Some v \<Rightarrow> v | None \<Rightarrow> Num 0) \<in> set (prelude env args)"
    by (simp add: prelude_def weekStartsOn_source_chain)
  have passed: "weekStartsOn (passed_options env args)
      = Some (effective_weekStartsOn env (arg_options args) (getDefaultOptions env))"
    by (simp add: passed_options_def eff)
  show ?thesis
  proof (cases rule: formatRelative_cases [of args env])
    case too_few
    with assms show ?thesis by simp
  next
    case no_localize
    with eff pre show ?thesis by (simp add: prelude_def)
  next
    case no_formatLong
    with eff pre show ?thesis by (simp add: prelude_def)
  next
    case no_formatRelative
    with eff pre show ?thesis by (simp add: prelude_def)
  next
    case invalid
    with eff pre show ?thesis by (simp add: prelude_def)
  next
    case (locale_throws fr err)
    with eff pre passed show ?thesis by (simp add: prelude_def calls_up_to_locale_def)
  next
    case (success fr formatStr)
    with eff pre passed show ?thesis by (simp add: prelude_def calls_up_to_locale_def)
  qed
qed

theorem weekStartsOn_priority_witness:
  "2 \<le> arguments_length
       (Args3 (IsNumber (Num 345600000)) (IsNumber (Num 864000000))
          (Some \<lparr>weekStartsOn = None, locale = Some example_locale\<rparr>))
   \<and> Format (Date (Num 345600000)) ''last eeee at p''
        \<lparr>weekStartsOn = Some (Num 1), locale = Some example_locale\<rparr>
       \<in> set (fst (formatRelative example_runtime
            (Args3 (IsNumber (Num 345600000)) (IsNumber (Num 864000000))
               (Some \<lparr>weekStartsOn = None, locale = Some example_locale\<rparr>))))
   \<and> effective_weekStartsOn example_runtime
        (Some \<lparr>weekStartsOn = None, locale = Some example_locale\<rparr>)
        (getDefaultOptions example_runtime) = Num 1"
proof -
  let ?a = "Args3 (IsNumber (Num 345600000)) (IsNumber (Num 864000000))
          (Some \<lparr>weekStartsOn = None, locale = Some example_locale\<rparr>)"
  let ?p = "\<lparr>weekStartsOn = Some (Num 1), locale = Some example_locale\<rparr>"
  have h: "2 \<le> arguments_length ?a"
    by simp
  have m: "Format (Date (Num 345600000)) ''last eeee at p'' ?p
      \<in> set (fst (formatRelative example_runtime ?a))"
    by (simp add: formatRelative_def requiredArgs_def Let_def call_defs example_defs
        token_of_def)
  from weekStartsOn_priority [OF h, of example_runtime] m
  have "weekStartsOn ?p = Some (effective_weekStartsOn example_runtime (arg_options ?a)
      (getDefaultOptions example_runtime))"
    by blast
  with h m show ?thesis
    by simp
qed

text \<open>
  C6. In a call that passes the checks, the token is computed from the calendar-day
  difference of the original \<^verbatim>\<open>date\<close> and \<^verbatim>\<open>baseDate\<close>; then the timezone offset is
  computed for each of them separately and subtracted from it; the two shifted dates
  go to the locale's formatRelative; and when the locale returns its pattern, the
  formatter receives the original \<^verbatim>\<open>date\<close> with that pattern, and its outcome is the
  outcome of the call. The call log lists the calls in this order. When the locale's
  formatRelative throws instead, the call ends there with that error.
\<close>

theorem formatRelative_utc_normalization:
  assumes "2 \<le> arguments_length args"
    and "capable (locale_of env args)"
    and "\<not> isNaN (diff_of env args)"
    and "Locale.formatRelative (locale_of env args) = Some fr"
  shows "(\<forall>formatStr.
        callFormatRelative env fr
          (token_of (differenceInCalendarDays env (date_of env args) (baseDate_of env args)))
          (subMilliseconds env (date_of env args)
             (getTimezoneOffsetInMilliseconds env (date_of env args)))
          (subMilliseconds env (baseDate_of env args)
             (getTimezoneOffsetInMilliseconds env (baseDate_of env args)))
          (passed_options env args) = Inr formatStr \<longrightarrow>
        fst (formatRelative env args) =
          [ToDate (arg_dirtyDate args), ToDate (arg_dirtyBaseDate args), GetDefaultOptions,
           ToInteger (weekStartsOn_source (arg_options args) (getDefaultOptions env)),
           DifferenceInCalendarDays (date_of env args) (baseDate_of env args),
           GetTimezoneOffsetInMilliseconds (date_of env args),
           SubMilliseconds (date_of env args)
             (getTimezoneOffsetInMilliseconds env (date_of env args)),
           GetTimezoneOffsetInMilliseconds (baseDate_of env args),
           SubMilliseconds (baseDate_of env args)
             (getTimezoneOffsetInMilliseconds env (baseDate_of env args)),
           LocaleFormatRelative fr
             (token_of (differenceInCalendarDays env (date_of env args) (baseDate_of env args)))
             (subMilliseconds env (date_of env args)
                (getTimezoneOffsetInMilliseconds env (date_of env args)))
             (subMilliseconds env (baseDate_of env args)
                (getTimezoneOffsetInMilliseconds env (baseDate_of env args)))
             (passed_options env args),
           Format (date_of env args) formatStr (passed_options env args)]
        \<and> snd (formatRelative env args) =
            format env (date_of env args) formatStr (passed_options env args))
    \<and> (\<forall>err.
        callFormatRelative env fr
          (token_of (differenceInCalendarDays env (date_of env args) (baseDate_of env args)))
          (subMilliseconds env (date_of env args)
             (getTimezoneOffsetInMilliseconds env (date_of env args)))
          (subMilliseconds env (baseDate_of env args)
             (getTimezoneOffsetInMilliseconds env (baseDate_of env args)))
          (passed_options env args) = Inl err \<longrightarrow>
        fst (formatRelative env args) =
          [ToDate (arg_dirtyDate args), ToDate (arg_dirtyBaseDate args), GetDefaultOptions,
           ToInteger (weekStartsOn_source (arg_options args) (getDefaultOptions env)),
           DifferenceInCalendarDays (date_of env args) (baseDate_of env args),
           GetTimezoneOffsetInMilliseconds (date_of env args),
           SubMilliseconds (date_of env args)
             (getTimezoneOffsetInMilliseconds env (date_of env args)),
           GetTimezoneOffsetInMilliseconds (baseDate_of env args),
           SubMilliseconds (baseDate_of env args)
             (getTimezoneOffsetInMilliseconds env (baseDate_of env args)),
           LocaleFormatRelative fr
             (token_of (differenceInCalendarDays env (date_of env args) (baseDate_of env args)))
             (subMilliseconds env (date_of env args)
                (getTimezoneOffsetInMilliseconds env (date_of env args)))
             (subMilliseconds env (baseDate_of env args)
                (getTimezoneOffsetInMilliseconds env (baseDate_of env args)))
             (passed_options env args)]
        \<and> snd (formatRelative env args) = Inl err)"
proof -
  have call: "callFormatRelative env fr
      (token_of (differenceInCalendarDays env (date_of env args) (baseDate_of env args)))
      (subMilliseconds env (date_of env args)
         (getTimezoneOffsetInMilliseconds env (date_of env args)))
      (subMilliseconds env (baseDate_of env args)
         (getTimezoneOffsetInMilliseconds env (baseDate_of env args)))
      (passed_options env args) = locale_call env args fr"
    by (simp add: locale_call_def diff_of_def utc_normalized_def)
  show ?thesis
  proof (cases "locale_call env args fr")
    case (Inl err)
    with call show ?thesis
      by (simp add: formatRelative_locale_throws [OF assms] calls_up_to_locale_def
          prelude_def utc_normalized_def diff_of_def)
  next
    case (Inr formatStr)
    with call show ?thesis
      by (simp add: formatRelative_success [OF assms] calls_up_to_locale_def
          prelude_def utc_normalized_def diff_of_def)
  qed
qed

theorem formatRelative_utc_normalization_witness:
  "2 \<le> arguments_length (Args2 (IsNumber (Num 345600000)) (IsNumber (Num 864000000)))
   \<and> capable (locale_of example_runtime
        (Args2 (IsNumber (Num 345600000)) (IsNumber (Num 864000000))))
   \<and> \<not> isNaN (diff_of example_runtime
        (Args2 (IsNumber (Num 345600000)) (IsNumber (Num 864000000))))
   \<and> Locale.formatRelative (locale_of example_runtime
        (Args2 (IsNumber (Num 345600000)) (IsNumber (Num 864000000))))
       = Some DefaultLocaleFormatRelative
   \<and> formatRelative example_runtime
        (Args2 (IsNumber (Num 345600000)) (IsNumber (Num 864000000))) =
      ([ToDate (Some (IsNumber (Num 345600000))), ToDate (Some (IsNumber (Num 864000000))),
        GetDefaultOptions, ToInteger (Num 0),
        DifferenceInCalendarDays (Date (Num 345600000)) (Date (Num 864000000)),
        GetTimezoneOffsetInMilliseconds (Date (Num 345600000)),
        SubMilliseconds (Date (Num 345600000)) (Num (- 3600000)),
        GetTimezoneOffsetInMilliseconds (Date (Num 864000000)),
        SubMilliseconds (Date (Num 864000000)) (Num (- 3600000)),
        LocaleFormatRelative DefaultLocaleFormatRelative LastWeek
          (Date (Num 349200000)) (Date (Num 867600000))
          \<lparr>weekStartsOn = Some (Num 0), locale = Some (defaultLocale example_runtime)\<rparr>,
        Format (Date (Num 345600000)) ''last eeee at p''
          \<lparr>weekStartsOn = Some (Num 0), locale = Some (defaultLocale example_runtime)\<rparr>],
       Inr ''last eeee at p'')"
proof -
  let ?a = "Args2 (IsNumber (Num 345600000)) (IsNumber (Num 864000000))"
  have h1: "2 \<le> arguments_length ?a"
    by simp
  have h2: "capable (locale_of example_runtime ?a)"
    by (simp add: call_defs example_defs)
  have h3: "\<not> isNaN (diff_of example_runtime ?a)"
    by (simp add: call_defs example_defs)
  have h4: "Locale.formatRelative (locale_of example_runtime ?a)
      = Some DefaultLocaleFormatRelative"
    by (simp add: call_defs example_defs)
  from formatRelative_utc_normalization [OF h1 h2 h3 h4] h1 h2 h3 h4 show ?thesis
    by (simp add: prod_eq_iff call_defs example_defs token_of_def)
qed

text \<open>
  C7, as stated: "for every valid instant d, a call with date and baseDate both equal
  to d always selects the today token and yields its pattern". Two calls at a valid
  instant that select no token. In the first the locale given in the options lacks
  formatRelative: the check of line 84 throws. In the second d is the earliest time
  value of a Date and the zone is east of UTC: the local start of that day lies before
  the range of a Date, the calendar-day difference of d and d is NaN instead of 0, and
  line 91 throws.
\<close>

theorem same_instant_without_today_counterexample:
  "isValid (toDate example_runtime (Some (IsNumber (Num 864000000))))
   \<and> differenceInCalendarDays example_runtime
        (toDate example_runtime (Some (IsNumber (Num 864000000))))
        (toDate example_runtime (Some (IsNumber (Num 864000000)))) = Num 0
   \<and> formatRelative example_runtime
        (Args3 (IsNumber (Num 864000000)) (IsNumber (Num 864000000))
           (Some \<lparr>weekStartsOn = None, locale = Some locale_without_formatRelative\<rparr>)) =
      ([ToDate (Some (IsNumber (Num 864000000))), ToDate (Some (IsNumber (Num 864000000))),
        GetDefaultOptions, ToInteger (Num 0)],
       Inl (RangeError ''locale must contain formatRelative property''))
   \<and> selected_tokens (fst (formatRelative example_runtime
        (Args3 (IsNumber (Num 864000000)) (IsNumber (Num 864000000))
           (Some \<lparr>weekStartsOn = None, locale = Some locale_without_formatRelative\<rparr>)))) = []
   \<and> isValid (toDate example_runtime (Some (IsNumber (Num (- 8640000000000000)))))
   \<and> differenceInCalendarDays example_runtime
        (toDate example_runtime (Some (IsNumber (Num (- 8640000000000000)))))
        (toDate example_runtime (Some (IsNumber (Num (- 8640000000000000))))) = NaN
   \<and> formatRelative example_runtime
        (Args2 (IsNumber (Num (- 8640000000000000))) (IsNumber (Num (- 8640000000000000)))) =
      ([ToDate (Some (IsNumber (Num (- 8640000000000000)))),
        ToDate (Some (IsNumber (Num (- 8640000000000000)))),
        GetDefaultOptions, ToInteger (Num 0),
        DifferenceInCalendarDays (Date (Num (- 8640000000000000)))
          (Date (Num (- 8640000000000000)))],
       Inl (RangeError ''Invalid time value''))
   \<and> selected_tokens (fst (formatRelative example_runtime
        (Args2 (IsNumber (Num (- 8640000000000000)))
           (IsNumber (Num (- 8640000000000000)))))) = []"
  by (simp add: formatRelative_def requiredArgs_def Let_def call_defs example_defs)

text \<open>
  C7, amended. Take a call whose date and baseDate are the same instant d. When the
  calendar-day difference of d and d is 0 and the resolved locale has the three
  capabilities, the call selects \<open>today\<close>: it is the one token handed to the locale's
  formatRelative, with the two shifted dates equal; and when the locale returns its
  pattern for \<open>today\<close>, what the call returns is the rendering of that pattern on the
  original date. When the locale lacks a capability or the difference is NaN, the call
  throws and no token is selected.
\<close>

theorem formatRelative_same_instant_today:
  assumes "args = Args2 d d \<or> args = Args3 d d opts"
  shows "(differenceInCalendarDays env (toDate env (Some d)) (toDate env (Some d)) = Num 0
        \<and> capable (locale_of env args)
        \<and> Locale.formatRelative (locale_of env args) = Some fr \<longrightarrow>
        selected_tokens (fst (formatRelative env args)) = [Today]
        \<and> LocaleFormatRelative fr Today
            (utc_normalized env (toDate env (Some d)))
            (utc_normalized env (toDate env (Some d)))
            (passed_options env args) \<in> set (fst (formatRelative env args))
        \<and> (\<forall>formatStr.
              callFormatRelative env fr Today
                (utc_normalized env (toDate env (Some d)))
                (utc_normalized env (toDate env (Some d)))
                (passed_options env args) = Inr formatStr \<longrightarrow>
              snd (formatRelative env args) =
                format env (toDate env (Some d)) formatStr (passed_options env args)))
    \<and> (\<not> capable (locale_of env args)
        \<or> isNaN (differenceInCalendarDays env (toDate env (Some d)) (toDate env (Some d)))
        \<longrightarrow>
        selected_tokens (fst (formatRelative env args)) = []
        \<and> (\<exists>e. snd (formatRelative env args) = Inl e))"
proof -
  from assms have two: "2 \<le> arguments_length args"
    by auto
  from assms have dates: "date_of env args = toDate env (Some d)"
    "baseDate_of env args = toDate env (Some d)"
    by (auto simp add: date_of_def baseDate_of_def)
  have diff: "diff_of env args
      = differenceInCalendarDays env (toDate env (Some d)) (toDate env (Some d))"
    by (simp add: diff_of_def dates)
  have today: "token_of (Num 0) = Today"
    by (simp add: token_of_def)
  have selects: "selected_tokens (fst (formatRelative env args)) = [Today]
      \<and> LocaleFormatRelative fr Today
          (utc_normalized env (toDate env (Some d)))
          (utc_normalized env (toDate env (Some d)))
          (passed_options env args) \<in> set (fst (formatRelative env args))
      \<and> (\<forall>formatStr.
            callFormatRelative env fr Today
              (utc_normalized env (toDate env (Some d)))
              (utc_normalized env (toDate env (Some d)))
              (passed_options env args) = Inr formatStr \<longrightarrow>
            snd (formatRelative env args) =
              format env (toDate env (Some d)) formatStr (passed_options env args))"
    if zero: "differenceInCalendarDays env (toDate env (Some d)) (toDate env (Some d)) = Num 0"
      and cap: "capable (locale_of env args)"
      and fr: "Locale.formatRelative (locale_of env args) = Some fr"
  proof -
    from zero diff have d0: "diff_of env args = Num 0"
      by simp
    then have valid: "\<not> isNaN (diff_of env args)"
      by simp
    have call: "locale_call env args fr =
        callFormatRelative env fr Today
          (utc_normalized env (toDate env (Some d)))
          (utc_normalized env (toDate env (Some d)))
          (passed_options env args)"
      by (simp add: locale_call_def d0 today dates)
    have logged: "LocaleFormatRelative fr Today
        (utc_normalized env (toDate env (Some d)))
        (utc_normalized env (toDate env (Some d)))
        (passed_options env args) \<in> set (calls_up_to_locale env args fr)"
      using locale_call_logged [of fr env args] by (simp add: d0 today dates)
    show ?thesis
    proof (cases "locale_call env args fr")
      case (Inl err)
      from call Inl have thrown: "callFormatRelative env fr Today
          (utc_normalized env (toDate env (Some d)))
          (utc_normalized env (toDate env (Some d)))
          (passed_options env args) = Inl err"
        by simp
      have run: "formatRelative env args = (calls_up_to_locale env args fr, Inl err)"
        by (rule formatRelative_locale_throws [OF two cap valid fr Inl])
      from logged show ?thesis
        by (simp add: run thrown selected_tokens_up_to_locale d0 today)
    next
      case (Inr formatStr)
      from call Inr have returned: "callFormatRelative env fr Today
          (utc_normalized env (toDate env (Some d)))
          (utc_normalized env (toDate env (Some d)))
          (passed_options env args) = Inr formatStr"
        by simp
      have run: "formatRelative env args =
          (calls_up_to_locale env args fr
             @ [Format (date_of env args) formatStr (passed_options env args)],
           format env (date_of env args) formatStr (passed_options env args))"
        by (rule formatRelative_success [OF two cap valid fr Inr])
      from logged show ?thesis
        by (simp add: run returned selected_tokens_append selected_tokens_up_to_locale
            d0 today dates)
    qed
  qed
  have throws: "selected_tokens (fst (formatRelative env args)) = []
      \<and> (\<exists>e. snd (formatRelative env args) = Inl e)"
    if bad: "\<not> capable (locale_of env args)
      \<or> isNaN (differenceInCalendarDays env (toDate env (Some d)) (toDate env (Some d)))"
  proof (cases rule: formatRelative_cases [of args env])
    case too_few
    with two show ?thesis by simp
  next
    case no_localize
    then show ?thesis by (simp add: prelude_def)
  next
    case no_formatLong
    then show ?thesis by (simp add: prelude_def)
  next
    case no_formatRelative
    then show ?thesis by (simp add: prelude_def)
  next
    case invalid
    then show ?thesis by (simp add: prelude_def)
  next
    case (locale_throws fr' err)
    with bad diff show ?thesis by simp
  next
    case (success fr' formatStr)
    with bad diff show ?thesis by simp
  qed
  from selects throws show ?thesis
    by blast
qed

theorem formatRelative_same_instant_today_witness:
  "differenceInCalendarDays example_runtime
        (toDate example_runtime (Some (IsNumber (Num 864000000))))
        (toDate example_runtime (Some (IsNumber (Num 864000000)))) = Num 0
   \<and> capable (locale_of example_runtime
        (Args2 (IsNumber (Num 864000000)) (IsNumber (Num 864000000))))
   \<and> Locale.formatRelative (locale_of example_runtime
        (Args2 (IsNumber (Num 864000000)) (IsNumber (Num 864000000))))
       = Some DefaultLocaleFormatRelative
   \<and> selected_tokens (fst (formatRelative example_runtime
        (Args2 (IsNumber (Num 864000000)) (IsNumber (Num 864000000))))) = [Today]
   \<and> snd (formatRelative example_runtime
        (Args2 (IsNumber (Num 864000000)) (IsNumber (Num 864000000)))) = Inr ''today at p''"
proof -
  let ?d = "IsNumber (Num 864000000)"
  let ?a = "Args2 ?d ?d"
  have h1: "?a = Args2 ?d ?d \<or> ?a = Args3 ?d ?d None"
    by simp
  have h2: "differenceInCalendarDays example_runtime (toDate example_runtime (Some ?d))
      (toDate example_runtime (Some ?d)) = Num 0"
    by (simp add: example_defs)
  have h3: "capable (locale_of example_runtime ?a)"
    by (simp add: call_defs example_defs)
  have h4: "Locale.formatRelative (locale_of example_runtime ?a)
      = Some DefaultLocaleFormatRelative"
    by (simp add: call_defs example_defs)
  have h5: "callFormatRelative example_runtime DefaultLocaleFormatRelative Today
      (utc_normalized example_runtime (toDate example_runtime (Some ?d)))
      (utc_normalized example_runtime (toDate example_runtime (Some ?d)))
      (passed_options example_runtime ?a) = Inr ''today at p''"
    by (simp add: example_runtime_def example_callFormatRelative_def)
  have h6: "format example_runtime (toDate example_runtime (Some ?d)) ''today at p''
      (passed_options example_runtime ?a) = Inr ''today at p''"
    by (simp add: call_defs example_defs)
  from formatRelative_same_instant_today
    [OF h1, of example_runtime DefaultLocaleFormatRelative] h2 h3 h4 h5
  have "selected_tokens (fst (formatRelative example_runtime ?a)) = [Today]
      \<and> snd (formatRelative example_runtime ?a) =
          format example_runtime (toDate example_runtime (Some ?d)) ''today at p''
            (passed_options example_runtime ?a)"
    by blast
  with h2 h3 h4 h6 show ?thesis
    by simp
qed

text \<open>
  C8, as stated: "the coerced integer, whatever its value, is passed through unchanged
  to the locale's formatRelative call and to the generic formatter". With a week start
  of 9 and a locale whose formatRelative looks at the week start, the value 9 reaches
  the locale unchanged, the locale throws the week-start RangeError, and the call ends
  at line 116: the formatter is never called, and the error is neither one of
  formatRelative's own nor the formatter's.
\<close>

theorem weekStartsOn_rejected_by_locale_counterexample:
  "formatRelative example_runtime
      (Args3 (IsNumber (Num 345600000)) (IsNumber (Num 864000000))
         (Some \<lparr>weekStartsOn = Some (Num 9), locale = Some example_locale\<rparr>)) =
     ([ToDate (Some (IsNumber (Num 345600000))), ToDate (Some (IsNumber (Num 864000000))),
       GetDefaultOptions, ToInteger (Num 9),
       DifferenceInCalendarDays (Date (Num 345600000)) (Date (Num 864000000)),
       GetTimezoneOffsetInMilliseconds (Date (Num 345600000)),
       SubMilliseconds (Date (Num 345600000)) (Num (- 3600000)),
       GetTimezoneOffsetInMilliseconds (Date (Num 864000000)),
       SubMilliseconds (Date (Num 864000000)) (Num (- 3600000)),
       LocaleFormatRelative (Ref 3) LastWeek (Date (Num 349200000)) (Date (Num 867600000))
         \<lparr>weekStartsOn = Some (Num 9), locale = Some example_locale\<rparr>],
      Inl (RangeError ''weekStartsOn must be between 0 and 6 inclusively''))
   \<and> RangeError ''weekStartsOn must be between 0 and 6 inclusively''
       \<notin> own_errors
           (Args3 (IsNumber (Num 345600000)) (IsNumber (Num 864000000))
              (Some \<lparr>weekStartsOn = Some (Num 9), locale = Some example_locale\<rparr>))"
  by (simp add: formatRelative_def requiredArgs_def Let_def call_defs example_defs
      token_of_def own_errors_def)

text \<open>
  C8, amended. formatRelative does not validate the range of weekStartsOn. In a call
  that passes its checks the coerced value, whatever it is, goes as it is to the
  locale's formatRelative; when that call returns a pattern, the same value goes as it
  is to the formatter, whose outcome is the outcome of the call. An error of a call is
  one of the five that formatRelative throws itself (arity, three locale errors,
  invalid time value), or the one thrown by the locale's formatRelative, or the
  formatter's. Whether a call reaches the locale's formatRelative does not depend on
  what the coercion returns.
\<close>

theorem formatRelative_no_weekStartsOn_validation:
  "(2 \<le> arguments_length args \<and> capable (locale_of env args) \<and> \<not> isNaN (diff_of env args)
      \<and> Locale.formatRelative (locale_of env args) = Some fr \<longrightarrow>
        LocaleFormatRelative fr (token_of (diff_of env args))
          (utc_normalized env (date_of env args)) (utc_normalized env (baseDate_of env args))
          \<lparr>weekStartsOn = Some (weekStartsOn_of env args), locale = Some (locale_of env args)\<rparr>
          \<in> set (fst (formatRelative env args))
        \<and> (\<forall>formatStr. locale_call env args fr = Inr formatStr \<longrightarrow>
              Format (date_of env args) formatStr
                \<lparr>weekStartsOn = Some (weekStartsOn_of env args),
                 locale = Some (locale_of env args)\<rparr>
                \<in> set (fst (formatRelative env args))
              \<and> snd (formatRelative env args) =
                  format env (date_of env args) formatStr
                    \<lparr>weekStartsOn = Some (weekStartsOn_of env args),
                     locale = Some (locale_of env args)\<rparr>)
        \<and> (\<forall>err. locale_call env args fr = Inl err \<longrightarrow>
              snd (formatRelative env args) = Inl err))
   \<and> (\<forall>e. snd (formatRelative env args) = Inl e \<longrightarrow>
         e \<in> own_errors args
         \<or> (\<exists>r t d b p. LocaleFormatRelative r t d b p \<in> set (fst (formatRelative env args))
               \<and> callFormatRelative env r t d b p = Inl e)
         \<or> (\<exists>d s p. Format d s p \<in> set (fst (formatRelative env args))
               \<and> format env d s p = Inl e))
   \<and> (\<forall>g. (\<exists>r t d b p. LocaleFormatRelative r t d b p
               \<in> set (fst (formatRelative (env\<lparr>toInteger := g\<rparr>) args)))
           = (\<exists>r t d b p. LocaleFormatRelative r t d b p
               \<in> set (fst (formatRelative env args))))"
proof -
  have logged: "LocaleFormatRelative fr (token_of (diff_of env args))
      (utc_normalized env (date_of env args)) (utc_normalized env (baseDate_of env args))
      \<lparr>weekStartsOn = Some (weekStartsOn_of env args), locale = Some (locale_of env args)\<rparr>
      \<in> set (calls_up_to_locale env args fr)"
    using locale_call_logged [of fr env args] by (simp add: passed_options_def)
  have passes: "LocaleFormatRelative fr (token_of (diff_of env args))
        (utc_normalized env (date_of env args)) (utc_normalized env (baseDate_of env args))
        \<lparr>weekStartsOn = Some (weekStartsOn_of env args), locale = Some (locale_of env args)\<rparr>
        \<in> set (fst (formatRelative env args))
      \<and> (\<forall>formatStr. locale_call env args fr = Inr formatStr \<longrightarrow>
            Format (date_of env args) formatStr
              \<lparr>weekStartsOn = Some (weekStartsOn_of env args),
               locale = Some (locale_of env args)\<rparr>
              \<in> set (fst (formatRelative env args))
            \<and> snd (formatRelative env args) =
                format env (date_of env args) formatStr
                  \<lparr>weekStartsOn = Some (weekStartsOn_of env args),
                   locale = Some (locale_of env args)\<rparr>)
      \<and> (\<forall>err. locale_call env args fr = Inl err \<longrightarrow>
            snd (formatRelative env args) = Inl err)"
    if h: "2 \<le> arguments_length args \<and> capable (locale_of env args)
      \<and> \<not> isNaN (diff_of env args) \<and> Locale.formatRelative (locale_of env args) = Some fr"
  proof (cases "locale_call env args fr")
    case (Inl err)
    from h have run: "formatRelative env args = (calls_up_to_locale env args fr, Inl err)"
      by (simp add: formatRelative_locale_throws [OF _ _ _ _ Inl])
    from logged show ?thesis
      by (simp add: run Inl)
  next
    case (Inr formatStr)
    from h have run: "formatRelative env args =
        (calls_up_to_locale env args fr
           @ [Format (date_of env args) formatStr (passed_options env args)],
         format env (date_of env args) formatStr (passed_options env args))"
      by (simp add: formatRelative_success [OF _ _ _ _ Inr])
    from logged show ?thesis
      by (simp add: run Inr passed_options_def)
  qed
  have errors: "\<forall>e. snd (formatRelative env args) = Inl e \<longrightarrow>
         e \<in> own_errors args
         \<or> (\<exists>r t d b p. LocaleFormatRelative r t d b p \<in> set (fst (formatRelative env args))
               \<and> callFormatRelative env r t d b p = Inl e)
         \<or> (\<exists>d s p. Format d s p \<in> set (fst (formatRelative env args))
               \<and> format env d s p = Inl e)"
  proof (cases rule: formatRelative_cases [of args env])
    case too_few
    then show ?thesis by (simp add: own_errors_def)
  next
    case no_localize
    then show ?thesis by (simp add: own_errors_def)
  next
    case no_formatLong
    then show ?thesis by (simp add: own_errors_def)
  next
    case no_formatRelative
    then show ?thesis by (simp add: own_errors_def)
  next
    case invalid
    then show ?thesis by (simp add: own_errors_def)
  next
    case (locale_throws fr' err)
    have "LocaleFormatRelative fr' (token_of (diff_of env args))
        (utc_normalized env (date_of env args)) (utc_normalized env (baseDate_of env args))
        (passed_options env args) \<in> set (fst (formatRelative env args))"
      by (simp add: locale_throws(6) locale_call_logged)
    moreover have "callFormatRelative env fr' (token_of (diff_of env args))
        (utc_normalized env (date_of env args)) (utc_normalized env (baseDate_of env args))
        (passed_options env args) = Inl err"
      using locale_throws(5) by (simp add: locale_call_def)
    moreover have "snd (formatRelative env args) = Inl err"
      by (simp add: locale_throws(6))
    ultimately show ?thesis
      by auto
  next
    case (success fr' formatStr)
    have "Format (date_of env args) formatStr (passed_options env args)
        \<in> set (fst (formatRelative env args))"
      by (simp add: success(6))
    moreover have "snd (formatRelative env args)
        = format env (date_of env args) formatStr (passed_options env args)"
      by (simp add: success(6))
    ultimately show ?thesis
      by auto
  qed
  have independent: "\<forall>g. (\<exists>r t d b p. LocaleFormatRelative r t d b p
        \<in> set (fst (formatRelative (env\<lparr>toInteger := g\<rparr>) args)))
      = (\<exists>r t d b p. LocaleFormatRelative r t d b p \<in> set (fst (formatRelative env args)))"
    by (simp add: reaches_locale toInteger_irrelevant)
  from passes errors independent show ?thesis
    by blast
qed

theorem formatRelative_no_weekStartsOn_validation_witness:
  "2 \<le> arguments_length
       (Args3 (IsNumber (Num 345600000)) (IsNumber (Num 864000000))
          (Some \<lparr>weekStartsOn = Some (Num 9), locale = None\<rparr>))
   \<and> LocaleFormatRelative DefaultLocaleFormatRelative LastWeek
        (Date (Num 349200000)) (Date (Num 867600000))
        \<lparr>weekStartsOn = Some (Num 9), locale = Some (defaultLocale example_runtime)\<rparr>
       \<in> set (fst (formatRelative example_runtime
            (Args3 (IsNumber (Num 345600000)) (IsNumber (Num 864000000))
               (Some \<lparr>weekStartsOn = Some (Num 9), locale = None\<rparr>))))
   \<and> Format (Date (Num 345600000)) ''last eeee at p''
        \<lparr>weekStartsOn = Some (Num 9), locale = Some (defaultLocale example_runtime)\<rparr>
       \<in> set (fst (formatRelative example_runtime
            (Args3 (IsNumber (Num 345600000)) (IsNumber (Num 864000000))
               (Some \<lparr>weekStartsOn = Some (Num 9), locale = None\<rparr>))))
   \<and> snd (formatRelative example_runtime
        (Args3 (IsNumber (Num 345600000)) (IsNumber (Num 864000000))
           (Some \<lparr>weekStartsOn = Some (Num 9), locale = None\<rparr>)))
       = format example_runtime (Date (Num 345600000)) ''last eeee at p''
           \<lparr>weekStartsOn = Some (Num 9), locale = Some (defaultLocale example_runtime)\<rparr>
   \<and> RangeError ''weekStartsOn must be between 0 and 6 inclusively''
       \<notin> own_errors
           (Args3 (IsNumber (Num 345600000)) (IsNumber (Num 864000000))
              (Some \<lparr>weekStartsOn = Some (Num 9), locale = None\<rparr>))"
proof -
  let ?a = "Args3 (IsNumber (Num 345600000)) (IsNumber (Num 864000000))
          (Some \<lparr>weekStartsOn = Some (Num 9), locale = None\<rparr>)"
  have h: "2 \<le> arguments_length ?a \<and> capable (locale_of example_runtime ?a)
      \<and> \<not> isNaN (diff_of example_runtime ?a)
      \<and> Locale.formatRelative (locale_of example_runtime ?a) = Some DefaultLocaleFormatRelative"
    by (simp add: call_defs example_defs)
  have returned: "locale_call example_runtime ?a DefaultLocaleFormatRelative
      = Inr ''last eeee at p''"
    by (simp add: call_defs example_defs token_of_def)
  have own: "RangeError ''weekStartsOn must be between 0 and 6 inclusively'' \<notin> own_errors ?a"
    by (simp add: own_errors_def)
  from formatRelative_no_weekStartsOn_validation
    [of ?a example_runtime DefaultLocaleFormatRelative] h returned
  have "LocaleFormatRelative DefaultLocaleFormatRelative (token_of (diff_of example_runtime ?a))
          (utc_normalized example_runtime (date_of example_runtime ?a))
          (utc_normalized example_runtime (baseDate_of example_runtime ?a))
          \<lparr>weekStartsOn = Some (weekStartsOn_of example_runtime ?a),
           locale = Some (locale_of example_runtime ?a)\<rparr>
          \<in> set (fst (formatRelative example_runtime ?a))
        \<and> Format (date_of example_runtime ?a) ''last eeee at p''
          \<lparr>weekStartsOn = Some (weekStartsOn_of example_runtime ?a),
           locale = Some (locale_of example_runtime ?a)\<rparr>
          \<in> set (fst (formatRelative example_runtime ?a))
        \<and> snd (formatRelative example_runtime ?a) =
          format example_runtime (date_of example_runtime ?a) ''last eeee at p''
            \<lparr>weekStartsOn = Some (weekStartsOn_of example_runtime ?a),
             locale = Some (locale_of example_runtime ?a)\<rparr>"
    by blast
  moreover have "token_of (diff_of example_runtime ?a) = LastWeek"
    "utc_normalized example_runtime (date_of example_runtime ?a) = Date (Num 349200000)"
    "utc_normalized example_runtime (baseDate_of example_runtime ?a) = Date (Num 867600000)"
    "weekStartsOn_of example_runtime ?a = Num 9"
    "locale_of example_runtime ?a = defaultLocale example_runtime"
    "date_of example_runtime ?a = Date (Num 345600000)"
    by (simp_all add: call_defs example_defs token_of_def)
  ultimately show ?thesis
    using own by simp
qed

text \<open>
  C9. The checks run in the order arity, localize, formatLong, formatRelative, invalid
  time value: each error is raised whatever the later checks would have found. In
  particular an invalid date together with a locale that lacks formatRelative raises the
  error of the locale, not the invalid time value.
\<close>

theorem formatRelative_error_order:
  "(arguments_length args < 2 \<longrightarrow>
      snd (formatRelative env args) = Inl (TypeError 2 (arguments_length args)))
   \<and> (2 \<le> arguments_length args \<and> localize (locale_of env args) = None \<longrightarrow>
      snd (formatRelative env args)
        = Inl (RangeError ''locale must contain localize property''))
   \<and> (2 \<le> arguments_length args \<and> localize (locale_of env args) \<noteq> None
       \<and> formatLong (locale_of env args) = None \<longrightarrow>
      snd (formatRelative env args)
        = Inl (RangeError ''locale must contain formatLong property''))
   \<and> (2 \<le> arguments_length args \<and> localize (locale_of env args) \<noteq> None
       \<and> formatLong (locale_of env args) \<noteq> None
       \<and> Locale.formatRelative (locale_of env args) = None \<longrightarrow>
      snd (formatRelative env args)
        = Inl (RangeError ''locale must contain formatRelative property''))
   \<and> (2 \<le> arguments_length args \<and> capable (locale_of env args)
       \<and> isNaN (diff_of env args) \<longrightarrow>
      snd (formatRelative env args) = Inl (RangeError ''Invalid time value''))
   \<and> (2 \<le> arguments_length args \<and> localize (locale_of env args) \<noteq> None
       \<and> formatLong (locale_of env args) \<noteq> None
       \<and> Locale.formatRelative (locale_of env args) = None
       \<and> \<not> isValid (date_of env args) \<and> isNaN (diff_of env args) \<longrightarrow>
      snd (formatRelative env args)
        = Inl (RangeError ''locale must contain formatRelative property'')
      \<and> snd (formatRelative env args) \<noteq> Inl (RangeError ''Invalid time value''))"
  by (simp add: formatRelative_too_few formatRelative_no_localize formatRelative_no_formatLong
      formatRelative_no_formatRelative formatRelative_invalid_diff)

theorem formatRelative_error_order_witness:
  "2 \<le> arguments_length
       (Args3 (IsNumber NaN) (IsNumber (Num 864000000))
          (Some \<lparr>weekStartsOn = None, locale = Some locale_without_formatRelative\<rparr>))
   \<and> localize locale_without_formatRelative \<noteq> None
   \<and> formatLong locale_without_formatRelative \<noteq> None
   \<and> Locale.formatRelative locale_without_formatRelative = None
   \<and> \<not> isValid (date_of example_runtime
       (Args3 (IsNumber NaN) (IsNumber (Num 864000000))
          (Some \<lparr>weekStartsOn = None, locale = Some locale_without_formatRelative\<rparr>)))
   \<and> isNaN (diff_of example_runtime
       (Args3 (IsNumber NaN) (IsNumber (Num 864000000))
          (Some \<lparr>weekStartsOn = None, locale = Some locale_without_formatRelative\<rparr>)))
   \<and> snd (formatRelative example_runtime
       (Args3 (IsNumber NaN) (IsNumber (Num 864000000))
          (Some \<lparr>weekStartsOn = None, locale = Some locale_without_formatRelative\<rparr>)))
     = Inl (RangeError ''locale must contain formatRelative property'')
   \<and> snd (formatRelative example_runtime (Args1 (IsNumber NaN))) = Inl (TypeError 2 1)"
proof -
  let ?a = "Args3 (IsNumber NaN) (IsNumber (Num 864000000))
          (Some \<lparr>weekStartsOn = None, locale = Some locale_without_formatRelative\<rparr>)"
  have l: "locale_of example_runtime ?a = locale_without_formatRelative"
    by (simp add: call_defs)
  have h: "2 \<le> arguments_length ?a \<and> localize (locale_of example_runtime ?a) \<noteq> None
      \<and> formatLong (locale_of example_runtime ?a) \<noteq> None
      \<and> Locale.formatRelative (locale_of example_runtime ?a) = None
      \<and> \<not> isValid (date_of example_runtime ?a) \<and> isNaN (diff_of example_runtime ?a)"
    by (simp add: l) (simp add: call_defs example_defs)
  have few: "arguments_length (Args1 (IsNumber NaN)) < 2"
    by simp
  from formatRelative_error_order [of ?a example_runtime] h
  have "snd (formatRelative example_runtime ?a)
      = Inl (RangeError ''locale must contain formatRelative property'')"
    by blast
  moreover from formatRelative_error_order [of "Args1 (IsNumber NaN)" example_runtime] few
  have "snd (formatRelative example_runtime (Args1 (IsNumber NaN))) = Inl (TypeError 2 1)"
    by simp
  ultimately show ?thesis
    using h l by simp
qed

text \<open>
  C10. When neither the options nor the process-wide default options set a locale, the
  locale of the call is the built-in default locale, which has the three capabilities;
  so a call with its two arguments always gets to the calendar-day difference, and its
  outcome is the invalid time value, or what the default locale's formatRelative throws,
  or the formatter's outcome: never a locale error of formatRelative.
\<close>

theorem formatRelative_default_locale:
  assumes "options_locale (arg_options args) = None"
    and "locale (getDefaultOptions env) = None"
  shows "locale_of env args = defaultLocale env
    \<and> capable (locale_of env args)
    \<and> (arguments_length args < 2 \<longrightarrow>
         snd (formatRelative env args) = Inl (TypeError 2 (arguments_length args)))
    \<and> (2 \<le> arguments_length args \<longrightarrow>
         DifferenceInCalendarDays (date_of env args) (baseDate_of env args)
           \<in> set (fst (formatRelative env args))
         \<and> snd (formatRelative env args) =
             (if isNaN (diff_of env args) then Inl (RangeError ''Invalid time value'')
              else (case locale_call env args DefaultLocaleFormatRelative of
                      Inl err \<Rightarrow> Inl err
                    | Inr formatStr \<Rightarrow>
                        format env (date_of env args) formatStr (passed_options env args))))"
proof -
  from assms have loc: "locale_of env args = defaultLocale env"
    by (simp add: locale_of_def resolve_locale_def optional_chaining)
  then have cap: "capable (locale_of env args)"
    and fr: "Locale.formatRelative (locale_of env args) = Some DefaultLocaleFormatRelative"
    by (simp_all add: capable_def defaultLocale_def)
  show ?thesis
  proof (cases "arguments_length args < 2")
    case True
    with loc cap show ?thesis
      by (simp add: formatRelative_too_few)
  next
    case False
    then have two: "2 \<le> arguments_length args"
      by simp
    show ?thesis
    proof (cases "isNaN (diff_of env args)")
      case True
      with loc cap two show ?thesis
        by (simp add: formatRelative_invalid_diff)
    next
      case valid: False
      show ?thesis
      proof (cases "locale_call env args DefaultLocaleFormatRelative")
        case (Inl err)
        with loc cap two valid show ?thesis
          by (simp add: formatRelative_locale_throws [OF two cap valid fr Inl]
              calls_up_to_locale_def)
      next
        case (Inr formatStr)
        with loc cap two valid show ?thesis
          by (simp add: formatRelative_success [OF two cap valid fr Inr]
              calls_up_to_locale_def)
      qed
    qed
  qed
qed

theorem formatRelative_default_locale_witness:
  "options_locale (arg_options (Args2 (IsNumber (Num 345600000)) (IsNumber (Num 864000000))))
     = None
   \<and> locale (getDefaultOptions example_runtime) = None
   \<and> capable (locale_of example_runtime
        (Args2 (IsNumber (Num 345600000)) (IsNumber (Num 864000000))))
   \<and> snd (formatRelative example_runtime
        (Args2 (IsNumber (Num 345600000)) (IsNumber (Num 864000000))))
       = Inr ''last eeee at p''"
proof -
  let ?a = "Args2 (IsNumber (Num 345600000)) (IsNumber (Num 864000000))"
  have h1: "options_locale (arg_options ?a) = None"
    by (simp add: options_locale_def)
  have h2: "locale (getDefaultOptions example_runtime) = None"
    by (simp add: example_runtime_def)
  from formatRelative_default_locale [OF h1 h2] h1 h2 show ?thesis
    by (simp add: call_defs example_defs token_of_def)
qed

end
